theory Spec2Isabelle
  imports Complex_Main
begin

section \<open>Planar geometry: rotations, translations, poses and transforms\<close>

text \<open>
  The development embeds \<^verbatim>\<open>lib/math/pose2d.py\<close> and
  \<^verbatim>\<open>lib/actions/action_scheduler.py\<close>. Python floats are read as real
  numbers: every arithmetic operation is exact. Where rounding decides a
  property, the arithmetic is evaluated a second time in double precision.
  Exceptions are values of the type \<open>error\<close>; a method that can raise returns
  \<open>error + 'a\<close> with \<open>Inl\<close> for the exception.
\<close>

datatype error = AttributeError | KeyError

subsection \<open>Rotation2d, Translation2d and Twist2d\<close>

text \<open>
  Modelled from the spec: the class \<^verbatim>\<open>Rotation2d\<close> of
  \<^verbatim>\<open>lib/math/rotation2d.py\<close> is imported by the source and is not part of
  it. The specification gives its data model (an angle kept as the pair
  \<open>(cos \<theta>, sin \<theta>)\<close>) and its operations: \<^verbatim>\<open>plus\<close> is complex
  multiplication, \<^verbatim>\<open>unary_minus\<close> negates the angle, \<^verbatim>\<open>minus\<close> is
  \<^verbatim>\<open>plus\<close> of the negation. The constructor takes the angle in radians
  and defaults to the zero angle.
\<close>

record rotation2d =
  r_cos :: real
  r_sin :: real

text \<open>Modelled from the spec: the constructor \<^verbatim>\<open>Rotation2d(angle)\<close>, absent from the source.\<close>

definition Rotation2d :: "real \<Rightarrow> rotation2d" where
  "Rotation2d angle = \<lparr>r_cos = cos angle, r_sin = sin angle\<rparr>"

text \<open>Modelled from the spec: \<^verbatim>\<open>Rotation2d.plus\<close>, absent from the source; complex multiplication.\<close>

definition Rotation2d_plus :: "rotation2d \<Rightarrow> rotation2d \<Rightarrow> rotation2d" where
  "Rotation2d_plus self other =
     \<lparr>r_cos = r_cos self * r_cos other - r_sin self * r_sin other,
      r_sin = r_sin self * r_cos other + r_cos self * r_sin other\<rparr>"

text \<open>Modelled from the spec: \<^verbatim>\<open>Rotation2d.unary_minus\<close>, absent from the source; the angle is negated.\<close>

definition Rotation2d_unary_minus :: "rotation2d \<Rightarrow> rotation2d" where
  "Rotation2d_unary_minus self = \<lparr>r_cos = r_cos self, r_sin = - r_sin self\<rparr>"

text \<open>Modelled from the spec: \<^verbatim>\<open>Rotation2d.minus\<close>, absent from the source; \<^verbatim>\<open>plus\<close> of the negation.\<close>

definition Rotation2d_minus :: "rotation2d \<Rightarrow> rotation2d \<Rightarrow> rotation2d" where
  "Rotation2d_minus self other = Rotation2d_plus self (Rotation2d_unary_minus other)"

text \<open>The invariant of the data model: the stored pair lies on the unit circle.\<close>

definition unit_rotation :: "rotation2d \<Rightarrow> bool" where
  "unit_rotation r = ((r_cos r)\<^sup>2 + (r_sin r)\<^sup>2 = 1)"

text \<open>
  Modelled from the spec: the class \<^verbatim>\<open>Translation2d\<close> of
  \<^verbatim>\<open>lib/math/translation2d.py\<close> is imported by the source and is not part of
  it. The specification describes a vector \<open>(x, y)\<close> with addition, subtraction,
  negation and \<^verbatim>\<open>rotate_by\<close>, which applies the rotation matrix
  \<open>x' = x cos \<theta> - y sin \<theta>\<close>, \<open>y' = x sin \<theta> + y cos \<theta>\<close>. The constructor
  defaults to the zero vector.
\<close>

record translation2d =
  t_x :: real
  t_y :: real

text \<open>Modelled from the spec: the constructor \<^verbatim>\<open>Translation2d(x, y)\<close>, absent from the source.\<close>

definition Translation2d :: "real \<Rightarrow> real \<Rightarrow> translation2d" where
  "Translation2d a b = \<lparr>t_x = a, t_y = b\<rparr>"

text \<open>Modelled from the spec: \<^verbatim>\<open>Translation2d.plus\<close>, absent from the source; vector addition.\<close>

definition Translation2d_plus :: "translation2d \<Rightarrow> translation2d \<Rightarrow> translation2d" where
  "Translation2d_plus self other = Translation2d (t_x self + t_x other) (t_y self + t_y other)"

text \<open>Modelled from the spec: \<^verbatim>\<open>Translation2d.minus\<close>, absent from the source; vector subtraction.\<close>

definition Translation2d_minus :: "translation2d \<Rightarrow> translation2d \<Rightarrow> translation2d" where
  "Translation2d_minus self other = Translation2d (t_x self - t_x other) (t_y self - t_y other)"

text \<open>Modelled from the spec: \<^verbatim>\<open>Translation2d.unary_minus\<close>, absent from the source.\<close>

definition Translation2d_unary_minus :: "translation2d \<Rightarrow> translation2d" where
  "Translation2d_unary_minus self = Translation2d (- t_x self) (- t_y self)"

text \<open>Modelled from the spec: \<^verbatim>\<open>Translation2d.rotate_by\<close>, absent from the source; the rotation matrix applied.\<close>

definition Translation2d_rotate_by :: "translation2d \<Rightarrow> rotation2d \<Rightarrow> translation2d" where
  "Translation2d_rotate_by self r =
     Translation2d (t_x self * r_cos r - t_y self * r_sin r)
                   (t_x self * r_sin r + t_y self * r_cos r)"

text \<open>
  Modelled from the spec: the class \<^verbatim>\<open>Twist2d\<close> of
  \<^verbatim>\<open>lib/math/twist2d.py\<close> is imported by the source and is not part of it. The
  specification describes it as the triple \<open>(dx, dy, dtheta)\<close>.
\<close>

record twist2d =
  dx :: real
  dy :: real
  dtheta :: real

text \<open>
  \<^verbatim>\<open>math.atan2(y, x)\<close> of the Python standard library on real arguments: the
  angle of the point \<open>(x, y)\<close> in \<open>(-\<pi>, \<pi>]\<close>, and \<open>0\<close> at the origin.
\<close>

definition atan2 :: "real \<Rightarrow> real \<Rightarrow> real" where
  "atan2 b a =
     (if 0 < a then arctan (b / a)
      else if a < 0 \<and> 0 \<le> b then arctan (b / a) + pi
      else if a < 0 \<and> b < 0 then arctan (b / a) - pi
      else if 0 < b then pi / 2
      else if b < 0 then - (pi / 2)
      else 0)"

subsection \<open>Pose2d and Transform2d\<close>

record pose2d =
  translation :: translation2d
  rotation :: rotation2d

record transform2d =
  m_translation :: translation2d
  m_rotation :: rotation2d

text \<open>\<^verbatim>\<open>Pose2d.__init__(x=0.0, y=0.0, rotation=None)\<close>.\<close>

definition Pose2d :: "real \<Rightarrow> real \<Rightarrow> rotation2d option \<Rightarrow> pose2d" where
  "Pose2d a b rot =
     (let rot' = (case rot of None \<Rightarrow> Rotation2d 0 | Some r \<Rightarrow> r)
      in \<lparr>translation = Translation2d a b, rotation = rot'\<rparr>)"

text \<open>
  \<^verbatim>\<open>Transform2d.__init__(translation=None, rotation=None)\<close>: without a
  translation the identity transform is built and the rotation argument is not
  read. Every call in the source that passes a translation passes a rotation
  too, so the rotation argument is not optional here.
\<close>

definition Transform2d :: "translation2d option \<Rightarrow> rotation2d \<Rightarrow> transform2d" where
  "Transform2d tr rot =
     (case tr of
        None \<Rightarrow> \<lparr>m_translation = Translation2d 0 0, m_rotation = Rotation2d 0\<rparr>
      | Some t \<Rightarrow> \<lparr>m_translation = t, m_rotation = rot\<rparr>)"

definition Pose2d_plus :: "pose2d \<Rightarrow> transform2d \<Rightarrow> pose2d" where
  "Pose2d_plus self other =
     (let new_translation =
            Translation2d_plus (translation self)
              (Translation2d_rotate_by (m_translation other) (rotation self));
          new_rotation = Rotation2d_plus (m_rotation other) (rotation self)
      in Pose2d (t_x new_translation) (t_y new_translation) (Some new_rotation))"

text \<open>
  Attribute lookup on a \<^verbatim>\<open>Transform2d\<close> object. \<^verbatim>\<open>__init__\<close> stores the
  two components under the names \<^verbatim>\<open>m_translation\<close> and \<^verbatim>\<open>m_rotation\<close>;
  the class defines methods only (\<^verbatim>\<open>get_translation\<close>, \<^verbatim>\<open>get_rotation\<close>,
  ...). Reading any other name as a data attribute raises
  \<^verbatim>\<open>AttributeError\<close>.
\<close>

definition Transform2d_getattr_translation :: "transform2d \<Rightarrow> string \<Rightarrow> error + translation2d" where
  "Transform2d_getattr_translation t name =
     (if name = ''m_translation'' then Inr (m_translation t) else Inl AttributeError)"

definition Transform2d_getattr_rotation :: "transform2d \<Rightarrow> string \<Rightarrow> error + rotation2d" where
  "Transform2d_getattr_rotation t name =
     (if name = ''m_rotation'' then Inr (m_rotation t) else Inl AttributeError)"

text \<open>
  \<^verbatim>\<open>Pose2d.relative_to\<close> builds \<^verbatim>\<open>Transform2d(other.translation, other.rotation)\<close>
  and then reads \<^verbatim>\<open>transform.translation.x\<close>, \<^verbatim>\<open>transform.translation.y\<close>
  and \<^verbatim>\<open>transform.rotation\<close>, in this order.
\<close>

definition Pose2d_relative_to :: "pose2d \<Rightarrow> pose2d \<Rightarrow> error + pose2d" where
  "Pose2d_relative_to self other =
     (let transform = Transform2d (Some (translation other)) (rotation other)
      in case Transform2d_getattr_translation transform ''translation'' of
           Inl e \<Rightarrow> Inl e
         | Inr t1 \<Rightarrow>
             (case Transform2d_getattr_translation transform ''translation'' of
                Inl e \<Rightarrow> Inl e
              | Inr t2 \<Rightarrow>
                  (case Transform2d_getattr_rotation transform ''rotation'' of
                     Inl e \<Rightarrow> Inl e
                   | Inr r \<Rightarrow> Inr (Pose2d (t_x t1) (t_y t2) (Some r)))))"

definition Pose2d_minus :: "pose2d \<Rightarrow> pose2d \<Rightarrow> error + transform2d" where
  "Pose2d_minus self other =
     (case Pose2d_relative_to self other of
        Inl e \<Rightarrow> Inl e
      | Inr relative_pose \<Rightarrow>
          Inr (Transform2d (Some (translation relative_pose)) (rotation relative_pose)))"

definition Pose2d_exp :: "pose2d \<Rightarrow> twist2d \<Rightarrow> pose2d" where
  "Pose2d_exp self twist =
     (let sin_theta = sin (dtheta twist);
          cos_theta = cos (dtheta twist);
          s = (if \<bar>dtheta twist\<bar> < 1 / 10 ^ 9
               then 1 - 1 / 6 * dtheta twist * dtheta twist
               else sin_theta / dtheta twist);
          c = (if \<bar>dtheta twist\<bar> < 1 / 10 ^ 9
               then 1 / 2 * dtheta twist
               else (1 - cos_theta) / dtheta twist);
          transform =
            Transform2d
              (Some (Translation2d (dx twist * s - dy twist * c) (dx twist * c + dy twist * s)))
              (Rotation2d (atan2 sin_theta cos_theta))
      in Pose2d_plus self transform)"

definition from_poses :: "pose2d \<Rightarrow> pose2d \<Rightarrow> transform2d" where
  "from_poses initial last' =
     (let tr = Translation2d_minus (translation last') (translation initial);
          rot = Rotation2d_minus (rotation last') (rotation initial);
          rotated_translation =
            Translation2d_rotate_by tr (Rotation2d_unary_minus (rotation initial))
      in Transform2d (Some rotated_translation) rot)"

definition inverse_t :: "transform2d \<Rightarrow> transform2d" where
  "inverse_t self =
     Transform2d
       (Some (Translation2d_rotate_by (Translation2d_unary_minus (m_translation self))
                (Rotation2d_unary_minus (m_rotation self))))
       (Rotation2d_unary_minus (m_rotation self))"

text \<open>
  Method lookup on a \<^verbatim>\<open>Pose2d\<close> object, for a method that is applied to one
  \<^verbatim>\<open>Transform2d\<close> and yields a pose. The class defines \<^verbatim>\<open>plus\<close>,
  \<^verbatim>\<open>minus\<close>, \<^verbatim>\<open>relative_to\<close>, \<^verbatim>\<open>get_translation\<close>, \<^verbatim>\<open>get_x\<close>,
  \<^verbatim>\<open>get_y\<close>, \<^verbatim>\<open>get_rotation\<close>, \<^verbatim>\<open>rotate_by\<close> and \<^verbatim>\<open>exp\<close>; of
  these \<^verbatim>\<open>plus\<close> is the one that takes a transform. A name that the class
  does not define raises \<^verbatim>\<open>AttributeError\<close>.
\<close>

definition Pose2d_getattr_method :: "string \<Rightarrow> error + (pose2d \<Rightarrow> transform2d \<Rightarrow> pose2d)" where
  "Pose2d_getattr_method name =
     (if name = ''plus'' then Inr Pose2d_plus else Inl AttributeError)"

text \<open>
  \<^verbatim>\<open>Transform2d.plus\<close> evaluates
  \<^verbatim>\<open>initial_pose.transform_by(self).transform_by(other)\<close> on
  \<^verbatim>\<open>initial_pose = Pose2d()\<close>.
\<close>

definition Transform2d_plus :: "transform2d \<Rightarrow> transform2d \<Rightarrow> error + transform2d" where
  "Transform2d_plus self other =
     (let initial_pose = Pose2d 0 0 None
      in case Pose2d_getattr_method ''transform_by'' of
           Inl e \<Rightarrow> Inl e
         | Inr m1 \<Rightarrow>
             (case Pose2d_getattr_method ''transform_by'' of
                Inl e \<Rightarrow> Inl e
              | Inr m2 \<Rightarrow>
                  (let final_pose = m2 (m1 initial_pose self) other
                   in Inr (from_poses initial_pose final_pose))))"

section \<open>The action scheduler\<close>

text \<open>
  Actions are objects with identity; the scheduler holds references to them in a
  Python \<^verbatim>\<open>set\<close>. An action is named here by its identity. The lifecycle
  methods of an action are dispatched dynamically and their classes lie outside
  the scheduler, so they are parameters of the model: each method transforms
  the state \<open>'w\<close> of everything outside the scheduler, and \<^verbatim>\<open>is_finished\<close>
  returns its verdict as well. The methods do not touch the scheduler itself.
\<close>

type_synonym action_id = nat

type_synonym addr = nat

record 'w actions =
  initialize :: "action_id \<Rightarrow> 'w \<Rightarrow> 'w"
  execute :: "action_id \<Rightarrow> 'w \<Rightarrow> 'w"
  is_finished :: "action_id \<Rightarrow> 'w \<Rightarrow> bool \<times> 'w"
  end_action :: "action_id \<Rightarrow> bool \<Rightarrow> 'w \<Rightarrow> 'w"

text \<open>
  \<^verbatim>\<open>WaitUntilAction\<close>: \<^verbatim>\<open>initialize\<close>, \<^verbatim>\<open>execute\<close> and \<^verbatim>\<open>end\<close> do
  nothing, \<^verbatim>\<open>is_finished\<close> calls the condition the action was built with.
\<close>

definition WaitUntilAction :: "(action_id \<Rightarrow> 'w \<Rightarrow> bool \<times> 'w) \<Rightarrow> 'w actions" where
  "WaitUntilAction condition =
     \<lparr>initialize = (\<lambda>a w. w),
      execute = (\<lambda>a w. w),
      is_finished = (\<lambda>a w. condition a w),
      end_action = (\<lambda>a interrupted w. w)\<rparr>"

text \<open>
  Every call of a lifecycle method is recorded in a trace, in the order of the
  calls; \<open>IsFinished a b\<close> records the call together with the value returned,
  \<open>End a b\<close> the call together with its argument.
\<close>

datatype event =
  Initialize action_id
| Execute action_id
| IsFinished action_id bool
| End action_id bool

fun actor :: "event \<Rightarrow> action_id" where
  "actor (Initialize a) = a"
| "actor (Execute a) = a"
| "actor (IsFinished a b) = a"
| "actor (End a b) = a"


definition events_of :: "action_id \<Rightarrow> event list \<Rightarrow> event list" where
  "events_of a tr = filter (\<lambda>e. actor e = a) tr"

text \<open>
  A Python \<^verbatim>\<open>set\<close> of action objects is a list without repetition, in the
  order in which the set is iterated. \<^verbatim>\<open>add\<close> leaves a set that has the
  element as it is; \<^verbatim>\<open>remove\<close> raises \<^verbatim>\<open>KeyError\<close> when the element is
  missing.
\<close>

definition set_add :: "'a \<Rightarrow> 'a list \<Rightarrow> 'a list" where
  "set_add a s = (if a \<in> set s then s else s @ [a])"


text \<open>
  The attributes of an \<^verbatim>\<open>ActionScheduler\<close> object, the class attribute
  \<^verbatim>\<open>_instance\<close> and the objects allocated so far. The address of an object
  is its index in the heap; an object that \<^verbatim>\<open>__new__\<close> has allocated and
  \<^verbatim>\<open>__init__\<close> has not yet run on has no attributes (\<open>None\<close>).
\<close>

record scheduler =
  action :: "action_id option"
  scheduled_actions :: "action_id list"

record 'w state =
  cls_instance :: "addr option"
  heap :: "scheduler option list"
  world :: 'w
  trace :: "event list"

definition scheduler_at :: "addr \<Rightarrow> 'w state \<Rightarrow> scheduler option" where
  "scheduler_at self st = (if self < length (heap st) then heap st ! self else None)"

definition ActionScheduler_new :: "'w state \<Rightarrow> addr \<times> 'w state" where
  "ActionScheduler_new st =
     (case cls_instance st of
        None \<Rightarrow>
          (let a = length (heap st)
           in (a, st\<lparr>cls_instance := Some a, heap := heap st @ [None]\<rparr>))
      | Some a \<Rightarrow> (a, st))"

definition ActionScheduler_init :: "addr \<Rightarrow> 'w state \<Rightarrow> 'w state" where
  "ActionScheduler_init self st =
     st\<lparr>heap := (heap st)[self := Some \<lparr>action = None, scheduled_actions = []\<rparr>]\<rparr>"

text \<open>
  The expression \<^verbatim>\<open>ActionScheduler()\<close>: the object returned by \<^verbatim>\<open>__new__\<close>
  is an instance of the class, so \<^verbatim>\<open>__init__\<close> runs on it, and the object is
  the value of the expression.
\<close>

definition ActionScheduler :: "'w state \<Rightarrow> addr \<times> 'w state" where
  "ActionScheduler st =
     (let (self, st1) = ActionScheduler_new st
      in (self, ActionScheduler_init self st1))"

text \<open>
  Reading an attribute of \<^verbatim>\<open>self\<close> raises \<^verbatim>\<open>AttributeError\<close> when the
  object has no attributes.
\<close>

definition schedule_action :: "'w actions \<Rightarrow> addr \<Rightarrow> action_id \<Rightarrow> 'w state \<Rightarrow> error + 'w state" where
  "schedule_action A self a st =
     (case scheduler_at self st of
        None \<Rightarrow> Inl AttributeError
      | Some s \<Rightarrow>
          Inr (st\<lparr>heap := (heap st)[self := Some (s\<lparr>scheduled_actions := set_add a (scheduled_actions s)\<rparr>)],
                  world := initialize A a (world st),
                  trace := trace st @ [Initialize a]\<rparr>))"









section \<open>Evaluation in double precision\<close>

text \<open>
  A Python float is an IEEE 754 double. The functions above compute with real
  numbers; to see what the program returns where rounding matters, the
  arithmetic of \<^verbatim>\<open>Pose2d.plus\<close> and \<^verbatim>\<open>Transform2d.from_poses\<close> is written
  a second time with a rounding function \<open>rd\<close> applied to the result of every
  addition, subtraction and multiplication. With the identity for \<open>rd\<close> these
  are the functions above; with \<open>double\<close> they are the program on floats, for
  results below the overflow threshold. Infinities, NaN and the sign of zero
  are not represented.
\<close>




text \<open>Modelled from the spec: \<^verbatim>\<open>Translation2d.plus\<close>, absent from the source, each sum rounded.\<close>

definition Translation2d_plus_rd :: "(real \<Rightarrow> real) \<Rightarrow> translation2d \<Rightarrow> translation2d \<Rightarrow> translation2d" where
  "Translation2d_plus_rd rd self other =
     Translation2d (rd (t_x self + t_x other)) (rd (t_y self + t_y other))"

text \<open>Modelled from the spec: \<^verbatim>\<open>Translation2d.minus\<close>, absent from the source, each difference rounded.\<close>

definition Translation2d_minus_rd :: "(real \<Rightarrow> real) \<Rightarrow> translation2d \<Rightarrow> translation2d \<Rightarrow> translation2d" where
  "Translation2d_minus_rd rd self other =
     Translation2d (rd (t_x self - t_x other)) (rd (t_y self - t_y other))"

text \<open>Modelled from the spec: \<^verbatim>\<open>Translation2d.rotate_by\<close>, absent from the source, each product and each sum rounded.\<close>

definition Translation2d_rotate_by_rd :: "(real \<Rightarrow> real) \<Rightarrow> translation2d \<Rightarrow> rotation2d \<Rightarrow> translation2d" where
  "Translation2d_rotate_by_rd rd self r =
     Translation2d (rd (rd (t_x self * r_cos r) - rd (t_y self * r_sin r)))
                   (rd (rd (t_x self * r_sin r) + rd (t_y self * r_cos r)))"

text \<open>Modelled from the spec: \<^verbatim>\<open>Rotation2d.plus\<close>, absent from the source, each product and each sum rounded.\<close>

definition Rotation2d_plus_rd :: "(real \<Rightarrow> real) \<Rightarrow> rotation2d \<Rightarrow> rotation2d \<Rightarrow> rotation2d" where
  "Rotation2d_plus_rd rd self other =
     \<lparr>r_cos = rd (rd (r_cos self * r_cos other) - rd (r_sin self * r_sin other)),
      r_sin = rd (rd (r_sin self * r_cos other) + rd (r_cos self * r_sin other))\<rparr>"

text \<open>Modelled from the spec: \<^verbatim>\<open>Rotation2d.minus\<close>, absent from the source; negation is exact.\<close>

definition Rotation2d_minus_rd :: "(real \<Rightarrow> real) \<Rightarrow> rotation2d \<Rightarrow> rotation2d \<Rightarrow> rotation2d" where
  "Rotation2d_minus_rd rd self other = Rotation2d_plus_rd rd self (Rotation2d_unary_minus other)"

text \<open>\<^verbatim>\<open>Pose2d.plus\<close> with rounded arithmetic.\<close>

definition Pose2d_plus_rd :: "(real \<Rightarrow> real) \<Rightarrow> pose2d \<Rightarrow> transform2d \<Rightarrow> pose2d" where
  "Pose2d_plus_rd rd self other =
     (let new_translation =
            Translation2d_plus_rd rd (translation self)
              (Translation2d_rotate_by_rd rd (m_translation other) (rotation self));
          new_rotation = Rotation2d_plus_rd rd (m_rotation other) (rotation self)
      in Pose2d (t_x new_translation) (t_y new_translation) (Some new_rotation))"

text \<open>\<^verbatim>\<open>Transform2d.from_poses\<close> with rounded arithmetic.\<close>

definition from_poses_rd :: "(real \<Rightarrow> real) \<Rightarrow> pose2d \<Rightarrow> pose2d \<Rightarrow> transform2d" where
  "from_poses_rd rd initial last' =
     (let tr = Translation2d_minus_rd rd (translation last') (translation initial);
          rot = Rotation2d_minus_rd rd (rotation last') (rotation initial);
          rotated_translation =
            Translation2d_rotate_by_rd rd tr (Rotation2d_unary_minus (rotation initial))
      in Transform2d (Some rotated_translation) rot)"

section \<open>Pose2d objects in a store\<close>

text \<open>
  To speak about what a method leaves unchanged, \<^verbatim>\<open>Pose2d\<close> objects are
  placed in a store: the address of an object is its index, and every
  evaluation of \<^verbatim>\<open>Pose2d(...)\<close> allocates the next index. The methods of
  \<^verbatim>\<open>Pose2d\<close> read the fields of their receiver and assign no field outside
  \<^verbatim>\<open>__init__\<close>; the value they compute is that of the functions above.
  \<^verbatim>\<open>rotate_by\<close> is not embedded: it passes a \<^verbatim>\<open>Translation2d\<close> and a
  \<^verbatim>\<open>Rotation2d\<close> as the \<open>x\<close> and \<open>y\<close> of the new pose, and what the
  constructor of \<^verbatim>\<open>Translation2d\<close> does with them is not in the source.
\<close>

type_synonym pose_heap = "pose2d list"

definition pose_at :: "pose_heap \<Rightarrow> addr \<Rightarrow> pose2d option" where
  "pose_at h a = (if a < length h then Some (h ! a) else None)"

definition alloc :: "pose_heap \<Rightarrow> pose2d \<Rightarrow> pose_heap \<times> addr" where
  "alloc h q = (h @ [q], length h)"

definition Pose2d_plus_h :: "pose_heap \<Rightarrow> addr \<Rightarrow> transform2d \<Rightarrow> pose_heap \<times> (error + addr)" where
  "Pose2d_plus_h h self other =
     (case pose_at h self of
        None \<Rightarrow> (h, Inl AttributeError)
      | Some p \<Rightarrow> (let (h', r) = alloc h (Pose2d_plus p other) in (h', Inr r)))"

definition Pose2d_exp_h :: "pose_heap \<Rightarrow> addr \<Rightarrow> twist2d \<Rightarrow> pose_heap \<times> (error + addr)" where
  "Pose2d_exp_h h self twist =
     (case pose_at h self of
        None \<Rightarrow> (h, Inl AttributeError)
      | Some p \<Rightarrow> (let (h', r) = alloc h (Pose2d_exp p twist) in (h', Inr r)))"

definition Pose2d_relative_to_h :: "pose_heap \<Rightarrow> addr \<Rightarrow> addr \<Rightarrow> pose_heap \<times> (error + addr)" where
  "Pose2d_relative_to_h h self other =
     (case pose_at h self of
        None \<Rightarrow> (h, Inl AttributeError)
      | Some p \<Rightarrow>
          (case pose_at h other of
             None \<Rightarrow> (h, Inl AttributeError)
           | Some q \<Rightarrow>
               (case Pose2d_relative_to p q of
                  Inl e \<Rightarrow> (h, Inl e)
                | Inr n \<Rightarrow> (let (h', r) = alloc h n in (h', Inr r)))))"

definition Pose2d_minus_h :: "pose_heap \<Rightarrow> addr \<Rightarrow> addr \<Rightarrow> pose_heap \<times> (error + transform2d)" where
  "Pose2d_minus_h h self other =
     (case Pose2d_relative_to_h h self other of
        (h', Inl e) \<Rightarrow> (h', Inl e)
      | (h', Inr relative_pose) \<Rightarrow>
          (case pose_at h' relative_pose of
             None \<Rightarrow> (h', Inl AttributeError)
           | Some q \<Rightarrow> (h', Inr (Transform2d (Some (translation q)) (rotation q)))))"

section \<open>Example inputs\<close>

text \<open>
  A scheduler object at address \<open>0\<close> with the actions \<open>0\<close> and \<open>1\<close> active, and
  two conditions for \<^verbatim>\<open>WaitUntilAction\<close>: one that holds for action \<open>1\<close> only,
  one that never holds.
\<close>

definition example_condition :: "action_id \<Rightarrow> unit \<Rightarrow> bool \<times> unit" where
  "example_condition a w = (a = 1, w)"

definition never_finished :: "action_id \<Rightarrow> unit \<Rightarrow> bool \<times> unit" where
  "never_finished a w = (False, w)"

definition example_state :: "unit state" where
  "example_state =
     \<lparr>cls_instance = Some 0,
      heap = [Some \<lparr>action = None, scheduled_actions = [0, 1]\<rparr>],
      world = (),
      trace = []\<rparr>"



section \<open>Properties of the geometry classes\<close>

subsection \<open>Auxiliary facts\<close>





lemma Pose2d_plus_fields:
  "translation (Pose2d_plus p t) =
     Translation2d_plus (translation p) (Translation2d_rotate_by (m_translation t) (rotation p))"
  "rotation (Pose2d_plus p t) = Rotation2d_plus (m_rotation t) (rotation p)"
  by (simp_all add: Pose2d_plus_def Pose2d_def Translation2d_def Let_def)


text \<open>The operations on rotations keep the invariant of the data model.\<close>

lemma unit_Rotation2d_plus:
  assumes "unit_rotation a" and "unit_rotation b"
  shows "unit_rotation (Rotation2d_plus a b)"
proof -
  have "(r_cos a * r_cos b - r_sin a * r_sin b)\<^sup>2 + (r_sin a * r_cos b + r_cos a * r_sin b)\<^sup>2
          = ((r_cos a)\<^sup>2 + (r_sin a)\<^sup>2) * ((r_cos b)\<^sup>2 + (r_sin b)\<^sup>2)"
    by (simp add: power2_eq_square algebra_simps)
  then show ?thesis using assms by (simp add: unit_rotation_def Rotation2d_plus_def)
qed

lemma unit_Rotation2d_unary_minus: "unit_rotation a \<Longrightarrow> unit_rotation (Rotation2d_unary_minus a)"
  by (simp add: unit_rotation_def Rotation2d_unary_minus_def)

lemma unit_rotation_Pose2d_plus:
  "unit_rotation (rotation p) \<Longrightarrow> unit_rotation (m_rotation t)
     \<Longrightarrow> unit_rotation (rotation (Pose2d_plus p t))"
  by (simp add: Pose2d_plus_fields unit_Rotation2d_plus)

text \<open>On the unit circle \<open>atan2\<close> recovers an angle with the given cosine and sine.\<close>

lemma sqrt_slope:
  assumes u: "a\<^sup>2 + b\<^sup>2 = 1" and a: "a \<noteq> (0::real)"
  shows "sqrt (1 + (b / a)\<^sup>2) = 1 / \<bar>a\<bar>"
proof -
  have "1 + (b / a)\<^sup>2 = (a\<^sup>2 + b\<^sup>2) / a\<^sup>2"
    using a by (simp add: power_divide field_simps)
  also have "\<dots> = (1 / \<bar>a\<bar>)\<^sup>2" using u by (simp add: power_divide)
  finally show ?thesis by (simp add: real_sqrt_unique)
qed

lemma cos_atan2:
  assumes u: "a\<^sup>2 + b\<^sup>2 = 1"
  shows "cos (atan2 b a) = a"
proof -
  consider "0 < a" | "a < 0" | "a = 0" by linarith
  then show ?thesis
  proof cases
    case 1
    then show ?thesis using sqrt_slope [OF u] by (simp add: atan2_def cos_arctan)
  next
    case 2
    then show ?thesis using sqrt_slope [OF u] by (auto simp add: atan2_def cos_arctan)
  next
    case 3
    then have "b\<^sup>2 = 1" using u by simp
    then have "b = 1 \<or> b = -1" by (simp add: power2_eq_1_iff)
    then show ?thesis using 3 by (auto simp add: atan2_def)
  qed
qed

lemma sin_atan2:
  assumes u: "a\<^sup>2 + b\<^sup>2 = 1"
  shows "sin (atan2 b a) = b"
proof -
  consider "0 < a" | "a < 0" | "a = 0" by linarith
  then show ?thesis
  proof cases
    case 1
    then show ?thesis using sqrt_slope [OF u] by (simp add: atan2_def sin_arctan)
  next
    case 2
    then show ?thesis using sqrt_slope [OF u] by (auto simp add: atan2_def sin_arctan)
  next
    case 3
    then have "b\<^sup>2 = 1" using u by simp
    then have "b = 1 \<or> b = -1" by (simp add: power2_eq_1_iff)
    then show ?thesis using 3 by (auto simp add: atan2_def)
  qed
qed

lemma relative_to_raises: "Pose2d_relative_to a b = Inl AttributeError"
  by (simp add: Pose2d_relative_to_def Transform2d_getattr_translation_def)

subsection \<open>Pose2d.minus\<close>

text \<open>
  C1. The claim: \<open>a.minus(b)\<close> is the transform \<open>T\<close> with \<open>b.plus(T) = a\<close>,
  obtained as \<open>a.relative_to(b)\<close>. In the source \<^verbatim>\<open>relative_to\<close> reads the
  attribute \<^verbatim>\<open>translation\<close> of a \<^verbatim>\<open>Transform2d\<close>, whose attributes are
  \<^verbatim>\<open>m_translation\<close> and \<^verbatim>\<open>m_rotation\<close>: the call raises
  \<^verbatim>\<open>AttributeError\<close> and \<^verbatim>\<open>minus\<close> with it, so no transform is returned.
  Evaluated at \<open>a = Pose2d(1, 2, Rotation2d(0))\<close> and \<open>b = Pose2d()\<close>.
\<close>

theorem Pose2d_minus_raises:
  "Pose2d_minus (Pose2d 1 2 (Some (Rotation2d 0))) (Pose2d 0 0 None) = Inl AttributeError"
  by (simp add: Pose2d_minus_def relative_to_raises)

subsection \<open>Transform2d.plus and inverse\<close>

text \<open>
  C3. The claim: \<open>t.plus(t.inverse())\<close> is the identity transform. In the source
  \<^verbatim>\<open>Transform2d.plus\<close> calls \<^verbatim>\<open>transform_by\<close> on a \<^verbatim>\<open>Pose2d\<close>, a
  method the class does not define: the call raises \<^verbatim>\<open>AttributeError\<close> and
  no transform is returned. Evaluated at the transform with translation
  \<open>(1, 2)\<close> and rotation \<open>\<pi>/2\<close>.
\<close>

theorem Transform2d_plus_inverse_raises:
  "Transform2d_plus (Transform2d (Some (Translation2d 1 2)) (Rotation2d (pi / 2)))
     (inverse_t (Transform2d (Some (Translation2d 1 2)) (Rotation2d (pi / 2))))
   = Inl AttributeError"
  by (simp add: Transform2d_plus_def Pose2d_getattr_method_def)

subsection \<open>The exponential map\<close>

text \<open>
  C4. \<open>p.exp(twist)\<close> follows the closed form of the exponential map of the
  planar motion group: with \<open>\<theta> = dtheta\<close>, the coefficients are
  \<open>s = 1 - \<theta>\<^sup>2/6\<close>, \<open>c = \<theta>/2\<close> when \<open>\<bar>\<theta>\<bar> < 10\<^sup>-\<^sup>9\<close> and
  \<open>s = sin \<theta> / \<theta>\<close>, \<open>c = (1 - cos \<theta>) / \<theta>\<close> otherwise; the transform with
  translation \<open>(dx s - dy c, dx c + dy s)\<close> and rotation
  \<open>atan2(sin \<theta>, cos \<theta>)\<close> is composed onto \<open>p\<close> with \<open>plus\<close>. The rotation built
  from \<open>atan2(sin \<theta>, cos \<theta>)\<close> is the rotation by \<open>\<theta>\<close>.
\<close>

theorem Pose2d_exp_formula:
  "Pose2d_exp p \<lparr>dx = a, dy = b, dtheta = \<theta>\<rparr> =
     (let s = (if \<bar>\<theta>\<bar> < 1 / 10 ^ 9 then 1 - \<theta>\<^sup>2 / 6 else sin \<theta> / \<theta>);
          c = (if \<bar>\<theta>\<bar> < 1 / 10 ^ 9 then \<theta> / 2 else (1 - cos \<theta>) / \<theta>)
      in Pose2d_plus p
           \<lparr>m_translation = \<lparr>t_x = a * s - b * c, t_y = a * c + b * s\<rparr>,
            m_rotation = Rotation2d (atan2 (sin \<theta>) (cos \<theta>))\<rparr>)
   \<and> Rotation2d (atan2 (sin \<theta>) (cos \<theta>)) = Rotation2d \<theta>"
proof
  show "Pose2d_exp p \<lparr>dx = a, dy = b, dtheta = \<theta>\<rparr> =
     (let s = (if \<bar>\<theta>\<bar> < 1 / 10 ^ 9 then 1 - \<theta>\<^sup>2 / 6 else sin \<theta> / \<theta>);
          c = (if \<bar>\<theta>\<bar> < 1 / 10 ^ 9 then \<theta> / 2 else (1 - cos \<theta>) / \<theta>)
      in Pose2d_plus p
           \<lparr>m_translation = \<lparr>t_x = a * s - b * c, t_y = a * c + b * s\<rparr>,
            m_rotation = Rotation2d (atan2 (sin \<theta>) (cos \<theta>))\<rparr>)"
    by (simp add: Pose2d_exp_def Transform2d_def Translation2d_def Let_def power2_eq_square)
next
  have "(cos \<theta>)\<^sup>2 + (sin \<theta>)\<^sup>2 = 1" by simp
  then show "Rotation2d (atan2 (sin \<theta>) (cos \<theta>)) = Rotation2d \<theta>"
    by (simp add: Rotation2d_def cos_atan2 sin_atan2)
qed

text \<open>
  C7. From the default pose, the twist \<open>(1, 0, \<pi>/2)\<close> ends on the quarter
  circle: translation \<open>(2/\<pi>, 2/\<pi>)\<close> and rotation \<open>\<pi>/2\<close>. This is not the
  pose \<open>(1, 0, \<pi>/2)\<close> of a straight-line step.
\<close>

theorem Pose2d_exp_quarter_circle:
  "Pose2d_exp (Pose2d 0 0 None) \<lparr>dx = 1, dy = 0, dtheta = pi / 2\<rparr>
     = Pose2d (2 / pi) (2 / pi) (Some (Rotation2d (pi / 2)))
   \<and> Pose2d_exp (Pose2d 0 0 None) \<lparr>dx = 1, dy = 0, dtheta = pi / 2\<rparr>
     \<noteq> Pose2d 1 0 (Some (Rotation2d (pi / 2)))"
proof -
  have "\<not> \<bar>pi / 2\<bar> < 1 / 10 ^ 9" using pi_ge_two by simp
  then have eq: "Pose2d_exp (Pose2d 0 0 None) \<lparr>dx = 1, dy = 0, dtheta = pi / 2\<rparr>
     = Pose2d (2 / pi) (2 / pi) (Some (Rotation2d (pi / 2)))"
    by (simp add: Pose2d_exp_def Pose2d_plus_def Pose2d_def Transform2d_def Translation2d_def
        Translation2d_plus_def Translation2d_rotate_by_def Rotation2d_def Rotation2d_plus_def
        atan2_def)
  have "Pose2d (2 / pi) (2 / pi) (Some (Rotation2d (pi / 2)))
          \<noteq> Pose2d 1 0 (Some (Rotation2d (pi / 2)))"
    by (simp add: Pose2d_def Translation2d_def)
  with eq show ?thesis by simp
qed

text \<open>
  C8. The zero twist leaves the default pose as it is:
  \<open>Pose2d().exp(Twist2d(0, 0, 0)) = Pose2d()\<close>.
\<close>

theorem Pose2d_exp_zero_twist:
  "Pose2d_exp (Pose2d 0 0 None) \<lparr>dx = 0, dy = 0, dtheta = 0\<rparr> = Pose2d 0 0 None"
  by (simp add: Pose2d_exp_def Pose2d_plus_def Pose2d_def Transform2d_def Translation2d_def
      Translation2d_plus_def Translation2d_rotate_by_def Rotation2d_def Rotation2d_plus_def
      atan2_def)

subsection \<open>The round trip through from_poses\<close>










lemma exact_rounding:
  "Pose2d_plus_rd (\<lambda>v. v) p t = Pose2d_plus p t"
  "from_poses_rd (\<lambda>v. v) p q = from_poses p q"
  by (simp_all add: Pose2d_plus_rd_def Pose2d_plus_def from_poses_rd_def from_poses_def
      Translation2d_plus_rd_def Translation2d_plus_def Translation2d_minus_rd_def
      Translation2d_minus_def Translation2d_rotate_by_rd_def Translation2d_rotate_by_def
      Rotation2d_plus_rd_def Rotation2d_plus_def Rotation2d_minus_rd_def Rotation2d_minus_def)



section \<open>Properties of the scheduler\<close>

subsection \<open>Auxiliary facts\<close>


text \<open>\<^verbatim>\<open>add\<close> keeps the list free of repetition.\<close>

lemma distinct_set_add: "distinct s \<Longrightarrow> distinct (set_add a s)"
  by (simp add: set_add_def)

lemma scheduler_at_bound: "scheduler_at self st = Some s \<Longrightarrow> self < length (heap st)"
  by (simp add: scheduler_at_def split: if_splits)
















subsection \<open>One tick and many ticks\<close>



subsection \<open>Scheduling an action twice\<close>

text \<open>
  C2, as amended. Scheduling an action a second time leaves the active set as
  the first call left it, with the action in it, and each of the two calls
  calls \<^verbatim>\<open>initialize\<close>: twice in total, not once.
\<close>

theorem schedule_action_twice:
  assumes s: "scheduler_at self st = Some s"
  shows "\<exists>st1 st2 s1 s2.
       schedule_action A self a st = Inr st1 \<and> schedule_action A self a st1 = Inr st2
     \<and> scheduler_at self st1 = Some s1 \<and> scheduler_at self st2 = Some s2
     \<and> a \<in> set (scheduled_actions s1)
     \<and> set (scheduled_actions s1) = insert a (set (scheduled_actions s))
     \<and> scheduled_actions s2 = scheduled_actions s1
     \<and> trace st1 = trace st @ [Initialize a]
     \<and> trace st2 = trace st @ [Initialize a, Initialize a]
     \<and> world st2 = initialize A a (initialize A a (world st))"
proof -
  let ?s1 = "s\<lparr>scheduled_actions := set_add a (scheduled_actions s)\<rparr>"
  let ?st1 = "st\<lparr>heap := (heap st)[self := Some ?s1],
                  world := initialize A a (world st),
                  trace := trace st @ [Initialize a]\<rparr>"
  let ?st2 = "?st1\<lparr>heap := (heap ?st1)[self := Some (?s1\<lparr>scheduled_actions := set_add a (scheduled_actions ?s1)\<rparr>)],
                  world := initialize A a (world ?st1),
                  trace := trace ?st1 @ [Initialize a]\<rparr>"
  have b: "self < length (heap st)" using s by (rule scheduler_at_bound)
  have 1: "schedule_action A self a st = Inr ?st1" using s by (simp add: schedule_action_def)
  have 3: "scheduler_at self ?st1 = Some ?s1" using b by (simp add: scheduler_at_def)
  then have 2: "schedule_action A self a ?st1 = Inr ?st2" by (simp add: schedule_action_def)
  have idem: "set_add a (scheduled_actions ?s1) = scheduled_actions ?s1"
    by (simp add: set_add_def)
  have 4: "scheduler_at self ?st2 = Some ?s1" using b idem by (simp add: scheduler_at_def)
  have 5: "a \<in> set (scheduled_actions ?s1)" by (simp add: set_add_def)
  have 6: "set (scheduled_actions ?s1) = insert a (set (scheduled_actions s))"
    by (auto simp add: set_add_def)
  have 7: "scheduled_actions ?s1 = scheduled_actions ?s1" by simp
  have 8: "trace ?st1 = trace st @ [Initialize a]" by simp
  have 9: "trace ?st2 = trace st @ [Initialize a, Initialize a]" by simp
  have 10: "world ?st2 = initialize A a (initialize A a (world st))" by simp
  show ?thesis
    by (rule exI [of _ ?st1], rule exI [of _ ?st2], rule exI [of _ ?s1], rule exI [of _ ?s1])
       (intro conjI 1 2 3 4 5 6 7 8 9 10)
qed

theorem schedule_action_twice_witness:
  "scheduler_at 0 example_state = Some \<lparr>action = None, scheduled_actions = [0, 1]\<rparr>
   \<and> (\<exists>st1 st2. schedule_action (WaitUntilAction example_condition) 0 7 example_state = Inr st1
         \<and> schedule_action (WaitUntilAction example_condition) 0 7 st1 = Inr st2
         \<and> trace st2 = [Initialize 7, Initialize 7])"
proof -
  have h: "scheduler_at 0 example_state = Some \<lparr>action = None, scheduled_actions = [0, 1]\<rparr>"
    by (simp add: scheduler_at_def example_state_def)
  have tr0: "trace example_state = []" by (simp add: example_state_def)
  show ?thesis
    using h tr0 schedule_action_twice [OF h, of "WaitUntilAction example_condition" 7]
    by auto
qed

text \<open>
  The claim as stated fails: after the second call the trace holds two calls of
  \<^verbatim>\<open>initialize\<close> for the action.
\<close>

theorem schedule_action_twice_counterexample:
  "schedule_action (WaitUntilAction never_finished) 0 7
     \<lparr>cls_instance = Some 0, heap = [Some \<lparr>action = None, scheduled_actions = []\<rparr>],
      world = (), trace = []\<rparr>
   = Inr \<lparr>cls_instance = Some 0, heap = [Some \<lparr>action = None, scheduled_actions = [7]\<rparr>],
          world = (), trace = [Initialize 7]\<rparr>
   \<and> schedule_action (WaitUntilAction never_finished) 0 7
     \<lparr>cls_instance = Some 0, heap = [Some \<lparr>action = None, scheduled_actions = [7]\<rparr>],
      world = (), trace = [Initialize 7]\<rparr>
   = Inr \<lparr>cls_instance = Some 0, heap = [Some \<lparr>action = None, scheduled_actions = [7]\<rparr>],
          world = (), trace = [Initialize 7, Initialize 7]\<rparr>
   \<and> length (events_of 7 [Initialize 7, Initialize 7]) \<noteq> 1"
  by (simp add: schedule_action_def scheduler_at_def set_add_def events_of_def)

subsection \<open>The constructor of the scheduler\<close>

lemma ActionScheduler_instance:
  "ActionScheduler st0 = (self, st1) \<Longrightarrow> cls_instance st1 = Some self"
  by (auto simp add: ActionScheduler_def ActionScheduler_new_def ActionScheduler_init_def Let_def
      split: option.splits)

text \<open>
  C10. Once \<^verbatim>\<open>ActionScheduler()\<close> has been evaluated and has returned the
  object \<open>self\<close>, every later evaluation returns \<open>self\<close> again, runs
  \<^verbatim>\<open>__init__\<close> on it and so leaves it with an empty active set, whatever was
  active before; the trace is unchanged, so no \<^verbatim>\<open>end\<close> is called.
\<close>

theorem ActionScheduler_singleton:
  assumes first: "ActionScheduler st0 = (self, st1)"
    and later: "cls_instance st = cls_instance st1"
    and s: "scheduler_at self st = Some s"
  shows "fst (ActionScheduler st) = self
     \<and> scheduler_at self (snd (ActionScheduler st)) = Some \<lparr>action = None, scheduled_actions = []\<rparr>
     \<and> trace (snd (ActionScheduler st)) = trace st
     \<and> world (snd (ActionScheduler st)) = world st
     \<and> cls_instance (snd (ActionScheduler st)) = Some self"
proof -
  have i: "cls_instance st = Some self" using ActionScheduler_instance [OF first] later by simp
  have b: "self < length (heap st)" using s by (rule scheduler_at_bound)
  show ?thesis using i b
    by (simp add: ActionScheduler_def ActionScheduler_new_def ActionScheduler_init_def
        scheduler_at_def)
qed

theorem ActionScheduler_singleton_witness:
  "ActionScheduler \<lparr>cls_instance = None, heap = [], world = (), trace = []\<rparr>
     = (0, \<lparr>cls_instance = Some 0, heap = [Some \<lparr>action = None, scheduled_actions = []\<rparr>],
            world = (), trace = []\<rparr>)
   \<and> cls_instance example_state = Some 0
   \<and> scheduler_at 0 example_state = Some \<lparr>action = None, scheduled_actions = [0, 1]\<rparr>
   \<and> fst (ActionScheduler example_state) = 0
   \<and> scheduler_at 0 (snd (ActionScheduler example_state))
       = Some \<lparr>action = None, scheduled_actions = []\<rparr>
   \<and> trace (snd (ActionScheduler example_state)) = trace example_state"
proof -
  let ?st0 = "\<lparr>cls_instance = None, heap = [], world = (), trace = []\<rparr> :: unit state"
  let ?st1 = "\<lparr>cls_instance = Some 0, heap = [Some \<lparr>action = None, scheduled_actions = []\<rparr>],
            world = (), trace = []\<rparr> :: unit state"
  have h1: "ActionScheduler ?st0 = (0, ?st1)"
    by (simp add: ActionScheduler_def ActionScheduler_new_def ActionScheduler_init_def)
  have h2: "cls_instance example_state = cls_instance ?st1" by (simp add: example_state_def)
  have h3: "scheduler_at 0 example_state = Some \<lparr>action = None, scheduled_actions = [0, 1]\<rparr>"
    by (simp add: scheduler_at_def example_state_def)
  show ?thesis
    using h1 h2 h3 ActionScheduler_singleton [OF h1 h2 h3] by simp
qed

section \<open>Properties of the store\<close>

lemma pose_at_append: "pose_at h a = Some q \<Longrightarrow> pose_at (h @ [n]) a = Some q"
  by (auto simp add: pose_at_def nth_append split: if_splits)

lemma pose_at_fresh: "pose_at h (length h) = None" "pose_at (h @ [n]) (length h) = Some n"
  by (simp_all add: pose_at_def)

lemma Pose2d_plus_h_eq:
  "pose_at h self = Some p \<Longrightarrow> Pose2d_plus_h h self t = (h @ [Pose2d_plus p t], Inr (length h))"
  by (simp add: Pose2d_plus_h_def alloc_def)

lemma Pose2d_exp_h_eq:
  "pose_at h self = Some p \<Longrightarrow> Pose2d_exp_h h self tw = (h @ [Pose2d_exp p tw], Inr (length h))"
  by (simp add: Pose2d_exp_h_def alloc_def)

text \<open>
  \<^verbatim>\<open>plus\<close> and \<^verbatim>\<open>exp\<close> return a newly allocated pose and leave every pose
  that existed before, the receiver among them, as it was.
\<close>

lemma Pose2d_plus_exp_frame:
  assumes p: "pose_at h self = Some p"
  shows "(\<exists>h' r. Pose2d_plus_h h self t = (h', Inr r)
            \<and> pose_at h r = None \<and> pose_at h' r = Some (Pose2d_plus p t)
            \<and> (\<forall>a q. pose_at h a = Some q \<longrightarrow> pose_at h' a = Some q))
       \<and> (\<exists>h' r. Pose2d_exp_h h self tw = (h', Inr r)
            \<and> pose_at h r = None \<and> pose_at h' r = Some (Pose2d_exp p tw)
            \<and> (\<forall>a q. pose_at h a = Some q \<longrightarrow> pose_at h' a = Some q))"
proof (intro conjI)
  show "\<exists>h' r. Pose2d_plus_h h self t = (h', Inr r)
            \<and> pose_at h r = None \<and> pose_at h' r = Some (Pose2d_plus p t)
            \<and> (\<forall>a q. pose_at h a = Some q \<longrightarrow> pose_at h' a = Some q)"
    using Pose2d_plus_h_eq [OF p] by (simp add: pose_at_fresh pose_at_append)
  show "\<exists>h' r. Pose2d_exp_h h self tw = (h', Inr r)
            \<and> pose_at h r = None \<and> pose_at h' r = Some (Pose2d_exp p tw)
            \<and> (\<forall>a q. pose_at h a = Some q \<longrightarrow> pose_at h' a = Some q)"
    using Pose2d_exp_h_eq [OF p] by (simp add: pose_at_fresh pose_at_append)
qed

text \<open>
  C9. The claim: every operation on a pose, \<^verbatim>\<open>relative_to\<close> and \<^verbatim>\<open>minus\<close>
  among them, returns a new \<^verbatim>\<open>Pose2d\<close> and leaves the pose unchanged. In
  the source \<^verbatim>\<open>relative_to\<close> raises \<^verbatim>\<open>AttributeError\<close> before it builds
  its result, and \<^verbatim>\<open>minus\<close> with it: in the store of the poses
  \<open>p = Pose2d(1, 2)\<close> at address \<open>0\<close> and \<open>q = Pose2d()\<close> at address \<open>1\<close>,
  \<open>p.relative_to(q)\<close> and \<open>p.minus(q)\<close> return no object and allocate none.
\<close>

theorem Pose2d_relative_to_h_raises:
  "Pose2d_relative_to_h [Pose2d 1 2 None, Pose2d 0 0 None] 0 1
     = ([Pose2d 1 2 None, Pose2d 0 0 None], Inl AttributeError)
   \<and> Pose2d_minus_h [Pose2d 1 2 None, Pose2d 0 0 None] 0 1
     = ([Pose2d 1 2 None, Pose2d 0 0 None], Inl AttributeError)"
  by (simp add: Pose2d_minus_h_def Pose2d_relative_to_h_def relative_to_raises pose_at_def)

end
